theory Spec2Isabelle
  imports Complex_Main
begin

section \<open>Data model\<close>

text \<open>
  \<^verbatim>\<open>ChatMessage\<close> of \<^verbatim>\<open>types.ts\<close>: a role and a content, both strings.
  \<^verbatim>\<open>trimMessageHistory\<close> is generic over \<^verbatim>\<open>T extends { role: string }\<close>, so the role
  is kept as a string and compared with the literal \<^verbatim>\<open>'system'\<close> as the source does.
\<close>

record chat_message =
  role :: string
  content :: string

section \<open>History trimming (utils.ts)\<close>

text \<open>
  \<^verbatim>\<open>Array.prototype.slice(start)\<close> with one argument: a negative \<^verbatim>\<open>start\<close> counts from
  the end and is clamped at 0, a non-negative one is clamped at the length; the result is
  the elements from that index on. In particular \<^verbatim>\<open>slice(0)\<close> is the whole array.
\<close>

definition slice_from :: "int \<Rightarrow> 'a list \<Rightarrow> 'a list" where
  "slice_from start xs =
     (let len = int (length xs);
          k = (if start < 0 then max (len + start) 0 else min start len)
      in drop (nat k) xs)"

text \<open>
  \<^verbatim>\<open>
  export function trimMessageHistory<T extends { role: string }>(messages: T[], maxMessages: number): T[] {
    if (messages.length <= maxMessages) { return messages; }
    const systemMessages = messages.filter(m => m.role === 'system');
    const otherMessages = messages.filter(m => m.role !== 'system');
    const recentMessages = otherMessages.slice(-maxMessages + systemMessages.length);
    return [...systemMessages, ...recentMessages];
  }
  \<close>
  The bound is a configuration number; it is modelled as an integer of any sign.
\<close>

definition trimMessageHistory :: "chat_message list \<Rightarrow> int \<Rightarrow> chat_message list" where
  "trimMessageHistory messages maxMessages =
     (if int (length messages) \<le> maxMessages then messages
      else
        let systemMessages = filter (\<lambda>m. role m = ''system'') messages;
            otherMessages = filter (\<lambda>m. role m \<noteq> ''system'') messages;
            recentMessages =
              slice_from (- maxMessages + int (length systemMessages)) otherMessages
        in systemMessages @ recentMessages)"

text \<open>
  The trimming policy in the words of the specification, for comparison with the code:
  unchanged within the bound; otherwise the system messages followed by the most recent
  \<open>maxMessages - systemCount\<close> non-system messages (none when that number is not
  positive).
\<close>

definition trim_spec :: "chat_message list \<Rightarrow> int \<Rightarrow> chat_message list" where
  "trim_spec messages maxMessages =
     (if int (length messages) \<le> maxMessages then messages
      else
        let systemMessages = filter (\<lambda>m. role m = ''system'') messages;
            otherMessages = filter (\<lambda>m. role m \<noteq> ''system'') messages;
            keep = nat (maxMessages - int (length systemMessages))
        in systemMessages @ drop (length otherMessages - keep) otherMessages)"

section \<open>JavaScript strings\<close>

text \<open>
  Strings are lists of characters; a character stands for a UTF-16 code unit below 256.
  On that range the white space of \<^verbatim>\<open>String.prototype.trim\<close> and of the pattern class
  \<^verbatim>\<open>\s\<close> is TAB, LF, VT, FF, CR, SPACE and NBSP. \<open>strip_prefix\<close> removes a
  literal prefix, \<open>startsWith\<close> and \<open>js_includes\<close> are \<^verbatim>\<open>String.prototype.startsWith\<close>
  and \<^verbatim>\<open>String.prototype.includes\<close>.
\<close>

definition isWhiteSpace :: "char \<Rightarrow> bool" where
  "isWhiteSpace c \<longleftrightarrow>
     c = CHR 0x09 \<or> c = CHR 0x0A \<or> c = CHR 0x0B \<or> c = CHR 0x0C \<or> c = CHR 0x0D
     \<or> c = CHR 0x20 \<or> c = CHR 0xA0"

definition js_trim :: "string \<Rightarrow> string" where
  "js_trim s = rev (dropWhile isWhiteSpace (rev (dropWhile isWhiteSpace s)))"

fun strip_prefix :: "string \<Rightarrow> string \<Rightarrow> string option" where
  "strip_prefix [] s = Some s"
| "strip_prefix (p # ps) [] = None"
| "strip_prefix (p # ps) (c # cs) = (if p = c then strip_prefix ps cs else None)"

definition startsWith :: "string \<Rightarrow> string \<Rightarrow> bool" where
  "startsWith pat s \<longleftrightarrow> strip_prefix pat s \<noteq> None"

fun js_includes :: "string \<Rightarrow> string \<Rightarrow> bool" where
  "js_includes pat [] = startsWith pat []"
| "js_includes pat (c # cs) = (startsWith pat (c # cs) \<or> js_includes pat cs)"

section \<open>Errors\<close>

text \<open>
  A thrown JavaScript error object with its \<^verbatim>\<open>name\<close> and \<^verbatim>\<open>message\<close>;
  \<open>Error msg\<close> is \<^verbatim>\<open>new Error(msg)\<close>, and \<open>TypeError msg\<close> is the error the runtime
  throws for a property read on \<^verbatim>\<open>null\<close> or \<^verbatim>\<open>undefined\<close> and for a call of what is no
  function (the wording of its message is the engine's; V8's is used). A function that
  may throw returns \<open>js_error + 'a\<close>, with \<open>Inl\<close> for the thrown error.
\<close>

record js_error =
  name :: string
  message :: string

definition Error :: "string \<Rightarrow> js_error" where
  "Error msg = \<lparr>name = ''Error'', message = msg\<rparr>"

definition TypeError :: "string \<Rightarrow> js_error" where
  "TypeError msg = \<lparr>name = ''TypeError'', message = msg\<rparr>"

section \<open>Suggestion extraction (chatPanel.ts)\<close>

text \<open>
  \<^verbatim>\<open>
  private extractAllFileFences(text: string): FileSuggestion[] {
    const suggestions: FileSuggestion[] = [];
    const fenceRegex = /```file\s+path="([^"]+)"[\r\n]+([\s\S]*?)```/gm;
    let match;
    while ((match = fenceRegex.exec(text)) !== null) {
      const [, path, content] = match;
      if (path && content !== undefined) {
        suggestions.push({ path: path.trim(), content });
      }
    }
    return suggestions;
  }
  \<close>
  The field \<^verbatim>\<open>content\<close> of \<^verbatim>\<open>FileSuggestion\<close> is named \<open>fileContent\<close> here, the name
  \<open>content\<close> being taken by the chat message.

  \<open>match_fence\<close> matches the pattern at the start of a string and returns both groups
  and the text after the match. Each greedy quantifier of the pattern is followed by a
  character outside its class (\<^verbatim>\<open>\s+\<close> by \<^verbatim>\<open>p\<close>, \<^verbatim>\<open>[^"]+\<close> by the quote), or
  by a search that a shorter repetition cannot help (\<^verbatim>\<open>[\r\n]+\<close> is followed by the
  lazy search for the closing marker, and a line break is no part of that marker), so
  backtracking never finds a match that the longest repetition misses: the repetitions
  are \<open>takeWhile\<close>, each required to be non-empty. \<open>lazy_until_fence\<close> is the lazy group
  followed by the closing marker: the shortest text up to the first marker.

  \<open>exec_loop\<close> is the \<^verbatim>\<open>exec\<close> loop of a global pattern: the leftmost match from the
  current position, then on from the end of that match. Both groups take part in every
  match, so \<^verbatim>\<open>content !== undefined\<close> always holds and the guard is the truth of
  \<^verbatim>\<open>path\<close>, that is, the untrimmed group being non-empty.
\<close>

record file_suggestion =
  path :: string
  fileContent :: string

definition fenceMarker :: string where
  "fenceMarker = [CHR 0x60, CHR 0x60, CHR 0x60]"

definition isLineBreak :: "char \<Rightarrow> bool" where
  "isLineBreak c \<longleftrightarrow> c = CHR 0x0D \<or> c = CHR 0x0A"

fun lazy_until_fence :: "string \<Rightarrow> (string \<times> string) option" where
  "lazy_until_fence [] = None"
| "lazy_until_fence (c # cs) =
     (case strip_prefix fenceMarker (c # cs) of
        Some rest \<Rightarrow> Some ([], rest)
      | None \<Rightarrow> map_option (\<lambda>(body, rest). (c # body, rest)) (lazy_until_fence cs))"

definition match_fence :: "string \<Rightarrow> (string \<times> string \<times> string) option" where
  "match_fence s =
     (case strip_prefix (fenceMarker @ ''file'') s of
        None \<Rightarrow> None
      | Some s1 \<Rightarrow>
          if takeWhile isWhiteSpace s1 = [] then None
          else
            (case strip_prefix (''path='' @ [CHR 0x22]) (dropWhile isWhiteSpace s1) of
               None \<Rightarrow> None
             | Some s2 \<Rightarrow>
                 if takeWhile (\<lambda>c. c \<noteq> CHR 0x22) s2 = [] then None
                 else
                   (case strip_prefix [CHR 0x22] (dropWhile (\<lambda>c. c \<noteq> CHR 0x22) s2) of
                      None \<Rightarrow> None
                    | Some s3 \<Rightarrow>
                        if takeWhile isLineBreak s3 = [] then None
                        else
                          (case lazy_until_fence (dropWhile isLineBreak s3) of
                             None \<Rightarrow> None
                           | Some (body, rest) \<Rightarrow>
                               Some (takeWhile (\<lambda>c. c \<noteq> CHR 0x22) s2, body, rest)))))"

lemma strip_prefix_length:
  "strip_prefix p s = Some r \<Longrightarrow> length s = length p + length r"
  by (induction p s rule: strip_prefix.induct) (auto split: if_splits)

lemma lazy_until_fence_shorter:
  "lazy_until_fence s = Some (b, r) \<Longrightarrow> length r < length s"
proof (induction s arbitrary: b r)
  case Nil
  then show ?case by simp
next
  case (Cons c cs)
  show ?case
  proof (cases "strip_prefix fenceMarker (c # cs)")
    case (Some rest)
    with Cons.prems have "r = rest" by simp
    moreover have "length (c # cs) = length fenceMarker + length rest"
      using Some by (rule strip_prefix_length)
    ultimately show ?thesis by (simp add: fenceMarker_def)
  next
    case None
    with Cons.prems obtain b' where "lazy_until_fence cs = Some (b', r)"
      by auto
    then have "length r < length cs" by (rule Cons.IH)
    then show ?thesis by simp
  qed
qed

lemma match_fence_shorter:
  assumes "match_fence s = Some (p, b, r)"
  shows "length r < length s"
proof -
  from assms obtain s1 s2 s3 where
    1: "strip_prefix (fenceMarker @ ''file'') s = Some s1" and
    2: "strip_prefix (''path='' @ [CHR 0x22]) (dropWhile isWhiteSpace s1) = Some s2" and
    3: "strip_prefix [CHR 0x22] (dropWhile (\<lambda>c. c \<noteq> CHR 0x22) s2) = Some s3" and
    4: "lazy_until_fence (dropWhile isLineBreak s3) = Some (b, r)"
    by (auto simp: match_fence_def split: option.splits if_splits)
  have "length r < length (dropWhile isLineBreak s3)"
    using 4 by (rule lazy_until_fence_shorter)
  also have "\<dots> \<le> length s3" by (rule length_dropWhile_le)
  also have "\<dots> \<le> length (dropWhile (\<lambda>c. c \<noteq> CHR 0x22) s2)"
    using strip_prefix_length [OF 3] by simp
  also have "\<dots> \<le> length s2" by (rule length_dropWhile_le)
  also have "\<dots> \<le> length (dropWhile isWhiteSpace s1)"
    using strip_prefix_length [OF 2] by simp
  also have "\<dots> \<le> length s1" by (rule length_dropWhile_le)
  also have "\<dots> \<le> length s"
    using strip_prefix_length [OF 1] by simp
  finally show ?thesis .
qed

function exec_loop :: "string \<Rightarrow> file_suggestion list" where
  "exec_loop [] = []"
| "exec_loop (c # cs) =
     (case match_fence (c # cs) of
        None \<Rightarrow> exec_loop cs
      | Some (p, body, rest) \<Rightarrow>
          (if p \<noteq> [] then [\<lparr>path = js_trim p, fileContent = body\<rparr>] else [])
          @ exec_loop rest)"
  by pat_completeness auto
termination
  by (relation "measure length") (auto dest: match_fence_shorter)

definition extractAllFileFences :: "string \<Rightarrow> file_suggestion list" where
  "extractAllFileFences text = exec_loop text"

section \<open>Path validation (utils.ts)\<close>

text \<open>
  \<^verbatim>\<open>validateRelativePath\<close> uses Node's \<^verbatim>\<open>path\<close> module and \<^verbatim>\<open>process.platform\<close>,
  which differ between platforms; they are a parameter of the model.
\<close>

record path_module =
  normalize :: "string \<Rightarrow> string"
  isAbsolute :: "string \<Rightarrow> bool"
  sep :: string
  win32 :: bool

text \<open>
  The POSIX variant of the module, after the documented behaviour of Node's
  \<^verbatim>\<open>path.posix.normalize\<close> and \<^verbatim>\<open>path.posix.isAbsolute\<close> (library code, not part of the
  repository): empty and \<^verbatim>\<open>.\<close> segments are dropped, \<^verbatim>\<open>..\<close> removes the segment
  before it and is kept at the front of a relative path only, a trailing separator and
  the leading separator of an absolute path are preserved, and an empty result is
  \<^verbatim>\<open>.\<close>.
\<close>

fun split_on :: "char \<Rightarrow> string \<Rightarrow> string list" where
  "split_on d [] = [[]]"
| "split_on d (c # cs) =
     (if c = d then [] # split_on d cs
      else (case split_on d cs of
              [] \<Rightarrow> [[c]]
            | seg # segs \<Rightarrow> (c # seg) # segs))"

fun join_with :: "string \<Rightarrow> string list \<Rightarrow> string" where
  "join_with d [] = []"
| "join_with d [seg] = seg"
| "join_with d (seg # segs) = seg @ d @ join_with d segs"

fun resolve_segments :: "bool \<Rightarrow> string list \<Rightarrow> string list \<Rightarrow> string list" where
  "resolve_segments allowAboveRoot acc [] = rev acc"
| "resolve_segments allowAboveRoot acc (seg # segs) =
     (if seg = [] \<or> seg = ''.'' then resolve_segments allowAboveRoot acc segs
      else if seg = ''..'' then
        (case acc of
           [] \<Rightarrow> resolve_segments allowAboveRoot (if allowAboveRoot then [''..''] else []) segs
         | lastSeg # below \<Rightarrow>
             if lastSeg \<noteq> ''..'' then resolve_segments allowAboveRoot below segs
             else resolve_segments allowAboveRoot (if allowAboveRoot then ''..'' # acc else acc) segs)
      else resolve_segments allowAboveRoot (seg # acc) segs)"

definition posix_normalize :: "string \<Rightarrow> string" where
  "posix_normalize p =
     (if p = [] then ''.''
      else
        let isAbs = (hd p = CHR ''/'');
            trailingSeparator = (last p = CHR ''/'');
            res = join_with ''/'' (resolve_segments (\<not> isAbs) [] (split_on CHR ''/'' p))
        in if res = [] then (if isAbs then ''/'' else if trailingSeparator then ''./'' else ''.'')
           else (if isAbs then ''/'' else []) @ res @ (if trailingSeparator then ''/'' else []))"

definition posix_isAbsolute :: "string \<Rightarrow> bool" where
  "posix_isAbsolute p \<longleftrightarrow> p \<noteq> [] \<and> hd p = CHR ''/''"

definition posix :: path_module where
  "posix = \<lparr>normalize = posix_normalize, isAbsolute = posix_isAbsolute, sep = ''/'', win32 = False\<rparr>"

text \<open>
  \<^verbatim>\<open>
  export function validateRelativePath(relPath: string): void {
    if (!relPath || relPath.trim().length === 0) { throw new Error('Path cannot be empty'); }
    const normalized = path.normalize(relPath);
    if (path.isAbsolute(normalized)) { throw new Error('Absolute paths are not allowed'); }
    if (normalized.includes('..')) { throw new Error('Path traversal (..) is not allowed'); }
    if (normalized.startsWith(path.sep) || normalized.startsWith('/')) {
      throw new Error('Path cannot start with a separator');
    }
    if (process.platform === 'win32') {
      if (/[<>:"|?*]/.test(relPath)) { throw new Error('Path contains invalid characters'); }
    }
    if (relPath.includes('\0')) { throw new Error('Path contains null bytes'); }
  }
  \<close>
\<close>

definition validateRelativePath :: "path_module \<Rightarrow> string \<Rightarrow> js_error + unit" where
  "validateRelativePath pm relPath =
     (if relPath = [] \<or> length (js_trim relPath) = 0 then Inl (Error ''Path cannot be empty'')
      else
        let normalized = normalize pm relPath in
        if isAbsolute pm normalized then Inl (Error ''Absolute paths are not allowed'')
        else if js_includes ''..'' normalized then Inl (Error ''Path traversal (..) is not allowed'')
        else if startsWith (sep pm) normalized \<or> startsWith ''/'' normalized
          then Inl (Error ''Path cannot start with a separator'')
        else if win32 pm \<and> (\<exists>c \<in> set relPath. c \<in> set (''<>:'' @ [CHR 0x22] @ ''|?*''))
          then Inl (Error ''Path contains invalid characters'')
        else if CHR 0x00 \<in> set relPath then Inl (Error ''Path contains null bytes'')
        else Inr ())"

section \<open>Number formatting\<close>

text \<open>
  \<open>show_nat\<close> is the decimal text of a natural number (a template literal applied to
  a non-negative integer). \<open>show_div_1000 numberText ms\<close> is the text a template literal
  gives for \<^verbatim>\<open>ms / 1000\<close>, a double, for a whole number \<open>ms\<close> of milliseconds. Below
  ten to the power fifteen the quotient has at most fifteen significant digits, so the
  shortest decimal that reads back as the same double, which is what
  \<^verbatim>\<open>Number.prototype.toString\<close> prints, is the exact quotient: the integer part, and
  when the division is not exact a point and the up to three decimals without trailing
  zeros. From there on the rounding of the double shows in the text; that text is not
  computed here but taken from the parameter \<open>numberText\<close>, the runtime's printing of
  \<^verbatim>\<open>ms / 1000\<close>.
\<close>

definition digit_char :: "nat \<Rightarrow> char" where
  "digit_char d = ''0123456789'' ! d"

function show_nat :: "nat \<Rightarrow> string" where
  "show_nat n = (if n < 10 then [digit_char n] else show_nat (n div 10) @ [digit_char (n mod 10)])"
  by pat_completeness auto
termination
  by (relation "measure id") auto

declare show_nat.simps [simp del]

definition show_milli_fraction :: "nat \<Rightarrow> string" where
  "show_milli_fraction m =
     rev (dropWhile (\<lambda>c. c = CHR ''0'')
       (rev [digit_char (m div 100), digit_char (m div 10 mod 10), digit_char (m mod 10)]))"

definition show_div_1000 :: "(nat \<Rightarrow> string) \<Rightarrow> nat \<Rightarrow> string" where
  "show_div_1000 numberText ms =
     (if ms < 10 ^ 15
      then show_nat (ms div 1000)
           @ (if ms mod 1000 = 0 then [] else ''.'' @ show_milli_fraction (ms mod 1000))
      else numberText ms)"

lemma show_nat_digit: "n < 10 \<Longrightarrow> show_nat n = [digit_char n]"
  by (simp add: show_nat.simps)

lemma show_nat_step: "10 \<le> n \<Longrightarrow> show_nat n = show_nat (n div 10) @ [digit_char (n mod 10)]"
  by (subst show_nat.simps) simp

section \<open>Endpoint adapter (llm.ts)\<close>

text \<open>
  The body of a response as \<^verbatim>\<open>response.json()\<close> delivers it: any JSON value. An object
  is the list of its members in the order of the text; \<open>own_property\<close> looks a key up, and
  of duplicate keys the last one counts, as \<^verbatim>\<open>JSON.parse\<close> has it. \<open>js_value\<close> adds
  \<^verbatim>\<open>undefined\<close>, the value of a missing property.

  \<open>truthy\<close> is JavaScript's conversion to a boolean: \<^verbatim>\<open>undefined\<close>, \<^verbatim>\<open>null\<close>,
  \<^verbatim>\<open>false\<close>, \<^verbatim>\<open>0\<close> and the empty string are falsy, everything else is truthy.
  \<open>get_property\<close> is the value of a property of a value that is neither \<^verbatim>\<open>null\<close> nor
  \<^verbatim>\<open>undefined\<close>: an object has its own properties, a string and an array have
  \<^verbatim>\<open>length\<close> and their elements under the decimal index keys, and every other property
  the code reads by name is \<^verbatim>\<open>undefined\<close> (methods are no values of this model; the one
  method the code calls, \<^verbatim>\<open>trim\<close>, is \<open>call_trim\<close>). \<open>read_plain\<close> is the property read
  \<^verbatim>\<open>a.k\<close>, which throws a \<^verbatim>\<open>TypeError\<close> on \<^verbatim>\<open>null\<close> and \<^verbatim>\<open>undefined\<close>;
  \<open>read_optional\<close> is \<^verbatim>\<open>a?.k\<close>, which is \<^verbatim>\<open>undefined\<close> there. \<open>call_trim\<close> is the call
  \<^verbatim>\<open>v.trim()\<close> on a truthy value: a string is trimmed, and on anything else the call
  throws a \<^verbatim>\<open>TypeError\<close>, \<^verbatim>\<open>trim\<close> being no function there.

  \<^verbatim>\<open>fetch\<close> is a parameter: it either rejects with an error (the abort raised by the
  timer rejects it with an error named \<^verbatim>\<open>AbortError\<close>) or is fulfilled with a response,
  whose \<^verbatim>\<open>text()\<close> and \<^verbatim>\<open>json()\<close> may reject in turn (\<^verbatim>\<open>json()\<close> with a
  \<^verbatim>\<open>SyntaxError\<close> when the body is not JSON).
\<close>

datatype json =
    JNull
  | JBool bool
  | JNumber real
  | JString string
  | JArray "json list"
  | JObject "(string \<times> json) list"

datatype js_value = Undefined | Val json

fun truthy :: "js_value \<Rightarrow> bool" where
  "truthy Undefined = False"
| "truthy (Val JNull) = False"
| "truthy (Val (JBool b)) = b"
| "truthy (Val (JNumber x)) = (x \<noteq> 0)"
| "truthy (Val (JString s)) = (s \<noteq> [])"
| "truthy (Val (JArray xs)) = True"
| "truthy (Val (JObject kvs)) = True"

fun nullish :: "js_value \<Rightarrow> bool" where
  "nullish Undefined = True"
| "nullish (Val JNull) = True"
| "nullish (Val v) = False"

definition isDigit :: "char \<Rightarrow> bool" where
  "isDigit c \<longleftrightarrow> c \<in> set ''0123456789''"

definition digit_value :: "char \<Rightarrow> nat" where
  "digit_value c = length (takeWhile (\<lambda>d. d \<noteq> c) ''0123456789'')"

definition parse_index :: "string \<Rightarrow> nat option" where
  "parse_index k =
     (if k \<noteq> [] \<and> (\<forall>c \<in> set k. isDigit c) \<and> (k = ''0'' \<or> hd k \<noteq> CHR ''0'')
      then Some (foldl (\<lambda>n c. 10 * n + digit_value c) 0 k)
      else None)"

definition own_property :: "(string \<times> json) list \<Rightarrow> string \<Rightarrow> json option" where
  "own_property kvs k = map_of (rev kvs) k"

fun get_property :: "js_value \<Rightarrow> string \<Rightarrow> js_value" where
  "get_property (Val (JObject kvs)) k =
     (case own_property kvs k of None \<Rightarrow> Undefined | Some v \<Rightarrow> Val v)"
| "get_property (Val (JString s)) k =
     (if k = ''length'' then Val (JNumber (real (length s)))
      else (case parse_index k of
              None \<Rightarrow> Undefined
            | Some i \<Rightarrow> if i < length s then Val (JString [s ! i]) else Undefined))"
| "get_property (Val (JArray xs)) k =
     (if k = ''length'' then Val (JNumber (real (length xs)))
      else (case parse_index k of
              None \<Rightarrow> Undefined
            | Some i \<Rightarrow> if i < length xs then Val (xs ! i) else Undefined))"
| "get_property v k = Undefined"

definition read_plain :: "js_value \<Rightarrow> string \<Rightarrow> js_error + js_value" where
  "read_plain v k =
     (if nullish v
      then Inl (TypeError (''Cannot read properties of ''
             @ (if v = Undefined then ''undefined'' else ''null'')
             @ '' (reading '' @ [CHR 0x27] @ k @ [CHR 0x27] @ '')''))
      else Inr (get_property v k))"

definition read_optional :: "js_value \<Rightarrow> string \<Rightarrow> js_value" where
  "read_optional v k = (if nullish v then Undefined else get_property v k)"

fun call_trim :: "string \<Rightarrow> js_value \<Rightarrow> js_error + string" where
  "call_trim expr (Val (JString s)) = Inr (js_trim s)"
| "call_trim expr v = Inl (TypeError (expr @ ''.trim is not a function''))"

record http_response =
  resp_ok :: bool
  resp_status :: nat
  resp_statusText :: string
  resp_text :: "js_error + string"
  resp_json :: "js_error + json"


datatype request_body =
    OpenAIBody string "chat_message list" real nat bool
  | OllamaBody string "chat_message list" bool real nat

record http_request =
  req_url :: string
  req_method :: string
  req_headers :: "(string \<times> string) list"
  req_body :: request_body

datatype fetch_result = Rejected js_error | Fulfilled http_response

text \<open>
  The \<^verbatim>\<open>catch\<close> block shared by both endpoint functions:
  \<^verbatim>\<open>
  catch (error) {
    if (error.name === 'AbortError') {
      throw new Error(`Request timed out after ${timeout / 1000} seconds`);
    }
    throw error;
  }
  \<close>
\<close>

definition rethrow_timeout :: "(nat \<Rightarrow> string) \<Rightarrow> nat \<Rightarrow> js_error + string \<Rightarrow> js_error + string" where
  "rethrow_timeout numberText timeout attempt =
     (case attempt of
        Inr reply \<Rightarrow> Inr reply
      | Inl error \<Rightarrow>
          if name error = ''AbortError''
          then Inl (Error (''Request timed out after '' @ show_div_1000 numberText timeout
                           @ '' seconds''))
          else Inl error)"

text \<open>
  \<^verbatim>\<open>
  async function callOpenAIEndpoint(url, model, messages, headers, temperature, maxTokens, timeout) {
    const body = { model, messages, temperature, max_tokens: maxTokens, stream: false };
    try {
      const controller = new AbortController();
      const timeoutId = setTimeout(() => controller.abort(), timeout);
      const response = await fetch(url, { method: 'POST', headers, body: JSON.stringify(body),
                                          signal: controller.signal });
      clearTimeout(timeoutId);
      if (!response.ok) {
        const errorText = await response.text();
        throw new Error(`LLM API error (${response.status}): ${errorText || response.statusText}`);
      }
      const json = (await response.json());
      if (!json.choices || json.choices.length === 0) {
        throw new Error('No response choices returned from LLM');
      }
      const content = json.choices[0]?.message?.content;
      if (!content) { throw new Error('Empty response from LLM'); }
      return content.trim();
    } catch (error) { ... }
  }
  \<close>
\<close>

definition read_openai_reply :: "json \<Rightarrow> js_error + string" where
  "read_openai_reply json =
     (case read_plain (Val json) ''choices'' of
        Inl error \<Rightarrow> Inl error
      | Inr choices \<Rightarrow>
          if \<not> truthy choices \<or> get_property choices ''length'' = Val (JNumber 0)
          then Inl (Error ''No response choices returned from LLM'')
          else
            let reply = read_optional (read_optional (get_property choices ''0'') ''message'')
                          ''content''
            in if \<not> truthy reply then Inl (Error ''Empty response from LLM'')
               else call_trim ''content'' reply)"

definition callOpenAIEndpoint ::
  "(http_request \<Rightarrow> fetch_result) \<Rightarrow> (nat \<Rightarrow> string) \<Rightarrow> string \<Rightarrow> string \<Rightarrow> chat_message list
     \<Rightarrow> (string \<times> string) list \<Rightarrow> real \<Rightarrow> nat \<Rightarrow> nat \<Rightarrow> js_error + string" where
  "callOpenAIEndpoint fetch numberText url model messages headers temperature maxTokens timeout =
     rethrow_timeout numberText timeout
       (case fetch \<lparr>req_url = url, req_method = ''POST'', req_headers = headers,
                    req_body = OpenAIBody model messages temperature maxTokens False\<rparr> of
          Rejected error \<Rightarrow> Inl error
        | Fulfilled response \<Rightarrow>
            if \<not> resp_ok response then
              (case resp_text response of
                 Inl error \<Rightarrow> Inl error
               | Inr errorText \<Rightarrow>
                   Inl (Error (''LLM API error ('' @ show_nat (resp_status response) @ ''): ''
                          @ (if errorText \<noteq> [] then errorText else resp_statusText response))))
            else
              (case resp_json response of
                 Inl error \<Rightarrow> Inl error
               | Inr json \<Rightarrow> read_openai_reply json))"


text \<open>
  \<^verbatim>\<open>callOllamaEndpoint\<close> differs in the request body
  (\<^verbatim>\<open>{ model, messages, stream: false, options: { temperature, num_predict: maxTokens } }\<close>),
  in the prefix of the status error, and in reading the reply:
  \<^verbatim>\<open>
  if (!json.message || !json.message.content) { throw new Error('Empty response from Ollama'); }
  return json.message.content.trim();
  \<close>
\<close>

definition read_ollama_reply :: "json \<Rightarrow> js_error + string" where
  "read_ollama_reply json =
     (case read_plain (Val json) ''message'' of
        Inl error \<Rightarrow> Inl error
      | Inr msg \<Rightarrow>
          if \<not> truthy msg \<or> \<not> truthy (get_property msg ''content'')
          then Inl (Error ''Empty response from Ollama'')
          else call_trim ''json.message.content'' (get_property msg ''content''))"

definition callOllamaEndpoint ::
  "(http_request \<Rightarrow> fetch_result) \<Rightarrow> (nat \<Rightarrow> string) \<Rightarrow> string \<Rightarrow> string \<Rightarrow> chat_message list
     \<Rightarrow> (string \<times> string) list \<Rightarrow> real \<Rightarrow> nat \<Rightarrow> nat \<Rightarrow> js_error + string" where
  "callOllamaEndpoint fetch numberText url model messages headers temperature maxTokens timeout =
     rethrow_timeout numberText timeout
       (case fetch \<lparr>req_url = url, req_method = ''POST'', req_headers = headers,
                    req_body = OllamaBody model messages False temperature maxTokens\<rparr> of
          Rejected error \<Rightarrow> Inl error
        | Fulfilled response \<Rightarrow>
            if \<not> resp_ok response then
              (case resp_text response of
                 Inl error \<Rightarrow> Inl error
               | Inr errorText \<Rightarrow>
                   Inl (Error (''Ollama API error ('' @ show_nat (resp_status response) @ ''): ''
                          @ (if errorText \<noteq> [] then errorText else resp_statusText response))))
            else
              (case resp_json response of
                 Inl error \<Rightarrow> Inl error
               | Inr json \<Rightarrow> read_ollama_reply json))"


text \<open>
  \<^verbatim>\<open>callLLM\<close> (in the version with \<^verbatim>\<open>apiCompat\<close> and \<^verbatim>\<open>customEndpoint\<close>) checks the
  configuration, builds the headers and dispatches on the custom endpoint and the
  compatibility mode; \<^verbatim>\<open>temperature\<close>, \<^verbatim>\<open>maxTokens\<close> and \<^verbatim>\<open>timeout\<close> default to 0.7,
  2048 and 120000 when the caller leaves them out.
  \<^verbatim>\<open>
  if (!model || model.trim().length === 0) { throw new Error('Model name is not configured. ...'); }
  const headers = { 'Content-Type': 'application/json' };
  if (token && token.trim().length > 0) { headers['Authorization'] = `Bearer ${token}`; }
  if (customEndpoint && customEndpoint.trim().length > 0) {
    if (!validateUrl(customEndpoint)) { throw new Error(`Invalid custom endpoint URL: ${customEndpoint}`); }
    return await callOpenAIEndpoint(customEndpoint, model, messages, headers, temperature, maxTokens, timeout);
  }
  if (!apiUrl || apiUrl.trim().length === 0) { throw new Error('API URL is not configured. ...'); }
  if (!validateUrl(apiUrl)) { throw new Error(`Invalid API URL: ${apiUrl}`); }
  if (apiCompat === 'openai') {
    const url = apiUrl.replace(/\/$/, '') + '/v1/chat/completions';
    return await callOpenAIEndpoint(url, model, messages, headers, temperature, maxTokens, timeout);
  } else {
    const url = apiUrl.replace(/\/$/, '') + '/api/chat';
    return await callOllamaEndpoint(url, model, messages, headers, temperature, maxTokens, timeout);
  }
  \<close> \<^verbatim>\<open>validateUrl\<close> (utils.ts) parses with the
  runtime's \<^verbatim>\<open>new URL\<close>; the parser is the parameter \<open>urlProtocol\<close>, which gives the
  protocol of a URL it accepts and \<open>None\<close> where it throws.
\<close>

definition validateUrl :: "(string \<Rightarrow> string option) \<Rightarrow> string \<Rightarrow> bool" where
  "validateUrl urlProtocol url =
     (if url = [] \<or> length (js_trim url) = 0 then False
      else (case urlProtocol url of
              None \<Rightarrow> False
            | Some protocol \<Rightarrow> protocol = ''http:'' \<or> protocol = ''https:''))"

definition strip_trailing_slash :: "string \<Rightarrow> string" where
  "strip_trailing_slash s = (if s \<noteq> [] \<and> last s = CHR ''/'' then butlast s else s)"

record llm_call_options =
  opt_apiUrl :: string
  opt_apiCompat :: "string option"
  opt_model :: string
  opt_token :: string
  opt_messages :: "chat_message list"
  opt_customEndpoint :: "string option"
  opt_temperature :: "real option"
  opt_maxTokens :: "nat option"
  opt_timeout :: "nat option"

definition callLLM ::
  "(http_request \<Rightarrow> fetch_result) \<Rightarrow> (nat \<Rightarrow> string) \<Rightarrow> (string \<Rightarrow> string option)
     \<Rightarrow> llm_call_options \<Rightarrow> js_error + string" where
  "callLLM fetch numberText urlProtocol options =
     (let temperature = (case opt_temperature options of None \<Rightarrow> 7 / 10 | Some t \<Rightarrow> t);
          maxTokens = (case opt_maxTokens options of None \<Rightarrow> 2048 | Some n \<Rightarrow> n);
          timeout = (case opt_timeout options of None \<Rightarrow> 120000 | Some n \<Rightarrow> n)
      in
      if opt_model options = [] \<or> length (js_trim (opt_model options)) = 0
      then Inl (Error ''Model name is not configured. Please set it in settings.'')
      else
        let headers =
              [(''Content-Type'', ''application/json'')]
              @ (if opt_token options \<noteq> [] \<and> length (js_trim (opt_token options)) > 0
                 then [(''Authorization'', ''Bearer '' @ opt_token options)] else [])
        in
        (case (case opt_customEndpoint options of
                 None \<Rightarrow> None
               | Some c \<Rightarrow> if c \<noteq> [] \<and> length (js_trim c) > 0 then Some c else None) of
           Some customEndpoint \<Rightarrow>
             if \<not> validateUrl urlProtocol customEndpoint
             then Inl (Error (''Invalid custom endpoint URL: '' @ customEndpoint))
             else callOpenAIEndpoint fetch numberText customEndpoint (opt_model options)
                    (opt_messages options) headers temperature maxTokens timeout
         | None \<Rightarrow>
             if opt_apiUrl options = [] \<or> length (js_trim (opt_apiUrl options)) = 0
             then Inl (Error ''API URL is not configured. Please set it in settings.'')
             else if \<not> validateUrl urlProtocol (opt_apiUrl options)
             then Inl (Error (''Invalid API URL: '' @ opt_apiUrl options))
             else if opt_apiCompat options = Some ''openai''
             then callOpenAIEndpoint fetch numberText
                    (strip_trailing_slash (opt_apiUrl options) @ ''/v1/chat/completions'')
                    (opt_model options) (opt_messages options) headers temperature maxTokens timeout
             else callOllamaEndpoint fetch numberText
                    (strip_trailing_slash (opt_apiUrl options) @ ''/api/chat'')
                    (opt_model options) (opt_messages options) headers temperature maxTokens timeout))"

section \<open>Chat panel (chatPanel.ts)\<close>

text \<open>
  The configuration read by \<^verbatim>\<open>getLLMConfig\<close>, the messages posted to the webview, and
  the state of the panel that \<^verbatim>\<open>onUserMessage\<close> touches: the conversation, the messages
  posted to the webview so far, and the error notifications shown by
  \<^verbatim>\<open>vscode.window.showErrorMessage\<close>.
\<close>

record llm_config =
  apiUrl :: string
  token :: string
  model :: string
  temperature :: real
  maxTokens :: nat
  systemPrompt :: string
  maxHistoryMessages :: int
  requestTimeout :: nat
  maxFileSize :: nat
  allowWriteWithoutPrompt :: bool

datatype webview_message =
    ChatAppend string string
  | ChatError string
  | ChatClear
  | FileSuggest file_suggestion

record chat_panel =
  messages :: "chat_message list"
  posted :: "webview_message list"
  errorMessagesShown :: "string list"

definition call_options :: "llm_config \<Rightarrow> chat_message list \<Rightarrow> llm_call_options" where
  "call_options config history =
     \<lparr>opt_apiUrl = apiUrl config, opt_apiCompat = None, opt_model = model config,
      opt_token = token config, opt_messages = history, opt_customEndpoint = None,
      opt_temperature = Some (temperature config), opt_maxTokens = Some (maxTokens config),
      opt_timeout = Some (requestTimeout config)\<rparr>"

text \<open>
  \<^verbatim>\<open>
  private async onUserMessage(text: string): Promise<void> {
    const trimmedText = text.trim();
    if (!trimmedText) { return; }
    if (trimmedText.startsWith('/')) { await this.handleCommand(trimmedText); return; }
    this.messages.push({ role: 'user', content: trimmedText });
    try {
      const config = getLLMConfig();
      this.messages = trimMessageHistory(this.messages, config.maxHistoryMessages);
      const reply = await callLLM({ apiUrl: config.apiUrl, model: config.model, token: config.token,
        messages: this.messages, temperature: config.temperature, maxTokens: config.maxTokens,
        timeout: config.requestTimeout });
      this.messages.push({ role: 'assistant', content: reply });
      this.post({ type: 'chat:append', role: 'assistant', content: reply });
      const fileSuggestions = this.extractAllFileFences(reply);
      for (const file of fileSuggestions) { this.post({ type: 'file:suggest', file }); }
    } catch (error: any) {
      const errorMsg = String(error?.message ?? error);
      vscode.window.showErrorMessage(`LLM Error: ${errorMsg}`);
      this.post({ type: 'chat:error', message: errorMsg });
    }
  }
  \<close>
  The model call and the slash-command handler (which reads the workspace) are
  parameters.
\<close>

definition onUserMessage ::
  "llm_config \<Rightarrow> (llm_call_options \<Rightarrow> js_error + string) \<Rightarrow> (string \<Rightarrow> chat_panel \<Rightarrow> chat_panel)
     \<Rightarrow> chat_panel \<Rightarrow> string \<Rightarrow> chat_panel" where
  "onUserMessage config llm handleCommand panel input =
     (let trimmedText = js_trim input in
      if trimmedText = [] then panel
      else if startsWith ''/'' trimmedText then handleCommand trimmedText panel
      else
        let pushed = panel\<lparr>messages := messages panel @ [\<lparr>role = ''user'', content = trimmedText\<rparr>]\<rparr>;
            trimmed = pushed\<lparr>messages := trimMessageHistory (messages pushed) (maxHistoryMessages config)\<rparr>
        in (case llm (call_options config (messages trimmed)) of
              Inr reply \<Rightarrow>
                trimmed\<lparr>messages := messages trimmed @ [\<lparr>role = ''assistant'', content = reply\<rparr>],
                        posted := posted trimmed @ [ChatAppend ''assistant'' reply]
                                  @ map FileSuggest (extractAllFileFences reply)\<rparr>
            | Inl error \<Rightarrow>
                trimmed\<lparr>errorMessagesShown := errorMessagesShown trimmed @ [''LLM Error: '' @ message error],
                        posted := posted trimmed @ [ChatError (message error)]\<rparr>))"

section \<open>Notions of the specification\<close>

text \<open>
  The specification's \<^verbatim>\<open>EmptyResponseError\<close> is an error with one of the three messages
  the endpoint functions throw for a success response without content. The content a
  body offers is, on the OpenAI-compatible shape, the content of the message of the first
  entry of a non-empty \<^verbatim>\<open>choices\<close> list, and on the Ollama shape the content of the
  top-level message; it is \<^verbatim>\<open>undefined\<close> where any of these is missing.
\<close>

definition isEmptyResponseError :: "js_error \<Rightarrow> bool" where
  "isEmptyResponseError e \<longleftrightarrow>
     e = Error ''No response choices returned from LLM''
     \<or> e = Error ''Empty response from LLM''
     \<or> e = Error ''Empty response from Ollama''"

definition openai_content :: "json \<Rightarrow> js_value" where
  "openai_content body =
     (let choices = read_optional (Val body) ''choices'' in
      if \<not> truthy choices \<or> get_property choices ''length'' = Val (JNumber 0) then Undefined
      else read_optional (read_optional (get_property choices ''0'') ''message'') ''content'')"

definition ollama_content :: "json \<Rightarrow> js_value" where
  "ollama_content body = read_optional (read_optional (Val body) ''message'') ''content''"


section \<open>Properties of history trimming\<close>

lemma slice_from_negative:
  "start < 0 \<Longrightarrow> slice_from start xs = drop (length xs - nat (- start)) xs"
  by (auto simp: slice_from_def Let_def max_def intro: arg_cong [where f = "\<lambda>k. drop k xs"])

lemma slice_from_nonnegative:
  "0 \<le> start \<Longrightarrow> slice_from start xs = drop (nat start) xs"
  by (auto simp: slice_from_def Let_def min_def)

lemma length_filter_partition:
  "length (filter P xs) + length (filter (\<lambda>x. \<not> P x) xs) = length xs"
  by (induction xs) auto

text \<open>
  Where the bound exceeds the number of system messages the code and the specification's
  policy agree, and the result has exactly \<open>maxMessages\<close> entries.
\<close>

lemma trimMessageHistory_refines_spec:
  assumes "int (length (filter (\<lambda>m. role m = ''system'') msgs)) < maxMessages"
  shows "trimMessageHistory msgs maxMessages = trim_spec msgs maxMessages"
proof (cases "int (length msgs) \<le> maxMessages")
  case True
  then show ?thesis by (simp add: trimMessageHistory_def trim_spec_def)
next
  case False
  let ?sc = "int (length (filter (\<lambda>m. role m = ''system'') msgs))"
  have neg: "- maxMessages + ?sc < 0" using assms by simp
  have "nat (- (- maxMessages + ?sc)) = nat (maxMessages - ?sc)" by simp
  with False neg show ?thesis
    by (simp add: trimMessageHistory_def trim_spec_def Let_def slice_from_negative)
qed

lemma length_trimMessageHistory:
  assumes "int (length (filter (\<lambda>m. role m = ''system'') msgs)) < maxMessages"
    and "maxMessages < int (length msgs)"
  shows "int (length (trimMessageHistory msgs maxMessages)) = maxMessages"
proof -
  let ?P = "\<lambda>m. role m = ''system''"
  have part: "length (filter ?P msgs) + length (filter (\<lambda>m. \<not> ?P m) msgs) = length msgs"
    by (rule length_filter_partition)
  let ?oth = "filter (\<lambda>m. role m \<noteq> ''system'') msgs"
  have neg: "- maxMessages + int (length (filter ?P msgs)) < 0" using assms by simp
  have "length (slice_from (- maxMessages + int (length (filter ?P msgs))) ?oth)
        = length ?oth - (length ?oth - nat (- (- maxMessages + int (length (filter ?P msgs)))))"
    by (simp only: slice_from_negative [OF neg] length_drop)
  moreover have "trimMessageHistory msgs maxMessages
        = filter ?P msgs @ slice_from (- maxMessages + int (length (filter ?P msgs))) ?oth"
    using assms by (simp add: trimMessageHistory_def Let_def)
  ultimately show ?thesis
    using assms part by (simp only: length_append)
qed



section \<open>Claims about history trimming\<close>

text \<open>
  C1. Claimed: within the bound the list is returned unchanged, and beyond it the result is
  the system messages followed by exactly the most recent \<open>maxMessages - systemCount\<close>
  non-system messages. Evaluated on a three-message conversation with one system message
  and bound 1, the code returns all three messages, whereas the stated policy
  (\<open>trim_spec\<close>) keeps only the system message: \<^verbatim>\<open>slice(-1 + 1)\<close> is \<^verbatim>\<open>slice(0)\<close>, the
  whole array.
\<close>

theorem C1_trim_at_system_count_keeps_everything:
  "trimMessageHistory
     [\<lparr>role = ''system'', content = ''S''\<rparr>,
      \<lparr>role = ''user'', content = ''a''\<rparr>,
      \<lparr>role = ''assistant'', content = ''b''\<rparr>] 1
   = [\<lparr>role = ''system'', content = ''S''\<rparr>,
      \<lparr>role = ''user'', content = ''a''\<rparr>,
      \<lparr>role = ''assistant'', content = ''b''\<rparr>]
   \<and> trim_spec
     [\<lparr>role = ''system'', content = ''S''\<rparr>,
      \<lparr>role = ''user'', content = ''a''\<rparr>,
      \<lparr>role = ''assistant'', content = ''b''\<rparr>] 1
   = [\<lparr>role = ''system'', content = ''S''\<rparr>]"
  by (simp add: trimMessageHistory_def trim_spec_def slice_from_def)




text \<open>
  C3. For every conversation whose first message has role system, and every bound (in
  particular every bound of at least one), the trimmed conversation starts with that same
  first message, unchanged.
\<close>

theorem C3_leading_system_message_kept:
  assumes "role m = ''system''"
  shows "\<exists>rest. trimMessageHistory (m # ms) n = m # rest"
  using assms by (simp add: trimMessageHistory_def Let_def)

theorem C3_leading_system_message_kept_witness:
  "role \<lparr>role = ''system'', content = ''S''\<rparr> = ''system''
   \<and> (\<exists>rest. trimMessageHistory
         [\<lparr>role = ''system'', content = ''S''\<rparr>,
          \<lparr>role = ''user'', content = ''a''\<rparr>,
          \<lparr>role = ''assistant'', content = ''b''\<rparr>] 2
        = \<lparr>role = ''system'', content = ''S''\<rparr> # rest)"
  using C3_leading_system_message_kept
    [of "\<lparr>role = ''system'', content = ''S''\<rparr>"
        "[\<lparr>role = ''user'', content = ''a''\<rparr>, \<lparr>role = ''assistant'', content = ''b''\<rparr>]" 2]
  by simp

text \<open>
  C10. When the conversation exceeds the bound, every system-role message, whatever its
  position, is collected into a contiguous block at the front of the result (in original
  order); everything after that block is a non-system message, taken from the non-system
  messages by \<^verbatim>\<open>slice\<close> with the count of all system messages; and when that count
  is below the bound the retained tail has exactly \<open>maxMessages - systemCount\<close> entries.
\<close>

theorem C10_all_system_messages_moved_to_front:
  assumes "maxMessages < int (length msgs)"
  shows "take (length (filter (\<lambda>m. role m = ''system'') msgs))
              (trimMessageHistory msgs maxMessages)
           = filter (\<lambda>m. role m = ''system'') msgs
       \<and> drop (length (filter (\<lambda>m. role m = ''system'') msgs))
              (trimMessageHistory msgs maxMessages)
           = slice_from (int (length (filter (\<lambda>m. role m = ''system'') msgs)) - maxMessages)
               (filter (\<lambda>m. role m \<noteq> ''system'') msgs)
       \<and> (\<forall>x \<in> set (drop (length (filter (\<lambda>m. role m = ''system'') msgs))
                          (trimMessageHistory msgs maxMessages)). role x \<noteq> ''system'')
       \<and> (int (length (filter (\<lambda>m. role m = ''system'') msgs)) < maxMessages \<longrightarrow>
            int (length (drop (length (filter (\<lambda>m. role m = ''system'') msgs))
                          (trimMessageHistory msgs maxMessages)))
              = maxMessages - int (length (filter (\<lambda>m. role m = ''system'') msgs)))"
proof -
  let ?sys = "filter (\<lambda>m. role m = ''system'') msgs"
  let ?oth = "filter (\<lambda>m. role m \<noteq> ''system'') msgs"
  let ?tail = "slice_from (int (length ?sys) - maxMessages) ?oth"
  have shape: "trimMessageHistory msgs maxMessages = ?sys @ ?tail"
    using assms by (simp add: trimMessageHistory_def Let_def)
  have t: "take (length ?sys) (trimMessageHistory msgs maxMessages) = ?sys"
    by (simp only: shape append_eq_conv_conj take_all order_refl append_Nil2 take_append diff_self_eq_0 take_0)
  have d: "drop (length ?sys) (trimMessageHistory msgs maxMessages) = ?tail"
    by (simp only: shape drop_append diff_self_eq_0 drop_0 drop_all order_refl append_Nil)
  have tail_sub: "set ?tail \<subseteq> set ?oth"
    unfolding slice_from_def Let_def by (rule set_drop_subset)
  have others: "\<forall>x \<in> set ?tail. role x \<noteq> ''system''"
    using tail_sub by auto
  have size: "int (length ?sys) < maxMessages \<longrightarrow> int (length ?tail) = maxMessages - int (length ?sys)"
  proof
    assume lt: "int (length ?sys) < maxMessages"
    have "int (length (trimMessageHistory msgs maxMessages)) = maxMessages"
      using lt assms by (rule length_trimMessageHistory)
    then have "int (length ?sys + length ?tail) = maxMessages"
      by (simp only: shape length_append)
    then show "int (length ?tail) = maxMessages - int (length ?sys)" by linarith
  qed
  show ?thesis
    unfolding t d using others size by blast
qed

theorem C10_all_system_messages_moved_to_front_witness:
  "trimMessageHistory
     [\<lparr>role = ''user'', content = ''a''\<rparr>,
      \<lparr>role = ''assistant'', content = ''b''\<rparr>,
      \<lparr>role = ''system'', content = ''S''\<rparr>,
      \<lparr>role = ''user'', content = ''c''\<rparr>] 3
   = [\<lparr>role = ''system'', content = ''S''\<rparr>,
      \<lparr>role = ''assistant'', content = ''b''\<rparr>,
      \<lparr>role = ''user'', content = ''c''\<rparr>]"
proof -
  let ?ms = "[\<lparr>role = ''user'', content = ''a''\<rparr>,
      \<lparr>role = ''assistant'', content = ''b''\<rparr>,
      \<lparr>role = ''system'', content = ''S''\<rparr>,
      \<lparr>role = ''user'', content = ''c''\<rparr>]"
  have big: "(3::int) < int (length ?ms)" by simp
  have "take 1 (trimMessageHistory ?ms 3) = [\<lparr>role = ''system'', content = ''S''\<rparr>]"
    and "drop 1 (trimMessageHistory ?ms 3)
         = [\<lparr>role = ''assistant'', content = ''b''\<rparr>, \<lparr>role = ''user'', content = ''c''\<rparr>]"
    using C10_all_system_messages_moved_to_front [OF big]
    by (simp_all add: slice_from_def)
  then have "take 1 (trimMessageHistory ?ms 3) @ drop 1 (trimMessageHistory ?ms 3)
         = [\<lparr>role = ''system'', content = ''S''\<rparr>,
            \<lparr>role = ''assistant'', content = ''b''\<rparr>, \<lparr>role = ''user'', content = ''c''\<rparr>]"
    by simp
  then show ?thesis by (simp only: append_take_drop_id)
qed

section \<open>Claims about the chat panel\<close>

lemma trimMessageHistory_snoc_last:
  assumes "role u \<noteq> ''system''"
    and "int (length (filter (\<lambda>m. role m = ''system'') msgs)) < n"
  shows "trimMessageHistory (msgs @ [u]) n \<noteq> [] \<and> last (trimMessageHistory (msgs @ [u]) n) = u"
proof (cases "int (length (msgs @ [u])) \<le> n")
  case True
  then show ?thesis by (simp add: trimMessageHistory_def)
next
  case False
  let ?sys = "filter (\<lambda>m. role m = ''system'') msgs"
  let ?oth = "filter (\<lambda>m. role m \<noteq> ''system'') msgs"
  have neg: "- n + int (length ?sys) < 0" using assms(2) by simp
  have keep: "length (?oth @ [u]) - nat (- (- n + int (length ?sys))) \<le> length ?oth"
    using assms(2) by simp
  have "trimMessageHistory (msgs @ [u]) n
          = ?sys @ slice_from (- n + int (length ?sys)) (?oth @ [u])"
    using False assms(1) by (simp add: trimMessageHistory_def Let_def)
  also have "slice_from (- n + int (length ?sys)) (?oth @ [u])
          = drop (length (?oth @ [u]) - nat (- (- n + int (length ?sys)))) (?oth @ [u])"
    using neg by (rule slice_from_negative)
  also have "\<dots> = drop (length (?oth @ [u]) - nat (- (- n + int (length ?sys)))) ?oth @ [u]"
    using keep by (simp only: drop_append) simp
  finally have "trimMessageHistory (msgs @ [u]) n
      = (?sys @ drop (length (?oth @ [u]) - nat (- (- n + int (length ?sys)))) ?oth) @ [u]"
    by simp
  then show ?thesis by (simp only: snoc_eq_iff_butlast last_snoc) simp
qed

text \<open>
  C4 (as amended). When the model call raises an error, \<^verbatim>\<open>onUserMessage\<close> catches it and
  posts it to the webview as a \<^verbatim>\<open>chat:error\<close> message (and shows it as an error
  notification); no assistant entry is added, and the conversation is left as it was sent
  to the model: the previous conversation with the user's turn appended, trimmed by
  \<^verbatim>\<open>trimMessageHistory\<close> to \<^verbatim>\<open>maxHistoryMessages\<close>. When the previous length plus one is
  within the bound, that is exactly the previous conversation followed by the user's
  turn; whenever the bound exceeds the number of system messages, the user's turn is the
  last entry.
\<close>

theorem C4_failed_call_keeps_trimmed_history:
  assumes "js_trim input \<noteq> []"
    and "\<not> startsWith ''/'' (js_trim input)"
    and "llm (call_options config
           (trimMessageHistory (messages panel @ [\<lparr>role = ''user'', content = js_trim input\<rparr>])
              (maxHistoryMessages config))) = Inl e"
  shows "messages (onUserMessage config llm handleCommand panel input)
           = trimMessageHistory (messages panel @ [\<lparr>role = ''user'', content = js_trim input\<rparr>])
               (maxHistoryMessages config)
       \<and> posted (onUserMessage config llm handleCommand panel input)
           = posted panel @ [ChatError (message e)]
       \<and> errorMessagesShown (onUserMessage config llm handleCommand panel input)
           = errorMessagesShown panel @ [''LLM Error: '' @ message e]
       \<and> (int (length (messages panel)) + 1 \<le> maxHistoryMessages config \<longrightarrow>
            messages (onUserMessage config llm handleCommand panel input)
              = messages panel @ [\<lparr>role = ''user'', content = js_trim input\<rparr>])
       \<and> (int (length (filter (\<lambda>m. role m = ''system'') (messages panel))) < maxHistoryMessages config \<longrightarrow>
            last (messages (onUserMessage config llm handleCommand panel input))
              = \<lparr>role = ''user'', content = js_trim input\<rparr>)"
proof -
  let ?u = "\<lparr>role = ''user'', content = js_trim input\<rparr>"
  let ?after = "onUserMessage config llm handleCommand panel input"
  have after: "?after = panel
        \<lparr>messages := trimMessageHistory (messages panel @ [?u]) (maxHistoryMessages config),
         errorMessagesShown := errorMessagesShown panel @ [''LLM Error: '' @ message e],
         posted := posted panel @ [ChatError (message e)]\<rparr>"
    using assms by (simp add: onUserMessage_def Let_def)
  have 1: "messages ?after = trimMessageHistory (messages panel @ [?u]) (maxHistoryMessages config)"
    by (simp add: after)
  have 2: "posted ?after = posted panel @ [ChatError (message e)]"
    by (simp add: after)
  have 3: "errorMessagesShown ?after = errorMessagesShown panel @ [''LLM Error: '' @ message e]"
    by (simp add: after)
  have 4: "int (length (messages panel)) + 1 \<le> maxHistoryMessages config \<longrightarrow>
            messages ?after = messages panel @ [?u]"
    by (simp add: 1 trimMessageHistory_def)
  have 5: "int (length (filter (\<lambda>m. role m = ''system'') (messages panel))) < maxHistoryMessages config \<longrightarrow>
            last (messages ?after) = ?u"
  proof
    assume lt: "int (length (filter (\<lambda>m. role m = ''system'') (messages panel))) < maxHistoryMessages config"
    have "role ?u \<noteq> ''system''" by simp
    from trimMessageHistory_snoc_last [OF this lt] show "last (messages ?after) = ?u"
      by (simp only: 1)
  qed
  from 1 2 3 4 5 show ?thesis by (intro conjI)
qed

theorem C4_history_trimmed_counterexample:
  "messages
     (onUserMessage
        \<lparr>apiUrl = ''http://localhost:11434'', token = ''ollama'', model = ''llama3.2'',
          temperature = 7 / 10, maxTokens = 2048, systemPrompt = ''S'',
          maxHistoryMessages = 2, requestTimeout = 120000, maxFileSize = 1048576,
          allowWriteWithoutPrompt = False\<rparr>
        (\<lambda>options. Inl (Error ''fetch failed''))
        (\<lambda>command panel. panel)
        \<lparr>messages = [\<lparr>role = ''system'', content = ''S''\<rparr>,
                       \<lparr>role = ''user'', content = ''a''\<rparr>,
                       \<lparr>role = ''assistant'', content = ''b''\<rparr>],
          posted = [], errorMessagesShown = []\<rparr>
        ''hi'')
   = [\<lparr>role = ''system'', content = ''S''\<rparr>, \<lparr>role = ''user'', content = ''hi''\<rparr>]"
  by (simp add: onUserMessage_def js_trim_def isWhiteSpace_def startsWith_def
        trimMessageHistory_def slice_from_def)

theorem C4_failed_call_keeps_trimmed_history_witness:
  "js_trim ''hi'' \<noteq> [] \<and> \<not> startsWith ''/'' (js_trim ''hi'')
   \<and> messages
        (onUserMessage
          \<lparr>apiUrl = ''http://localhost:11434'', token = ''ollama'', model = ''llama3.2'',
            temperature = 7 / 10, maxTokens = 2048, systemPrompt = ''S'',
            maxHistoryMessages = 50, requestTimeout = 120000, maxFileSize = 1048576,
            allowWriteWithoutPrompt = False\<rparr>
          (\<lambda>options. Inl (Error ''fetch failed''))
          (\<lambda>command panel. panel)
          \<lparr>messages = [\<lparr>role = ''system'', content = ''S''\<rparr>], posted = [], errorMessagesShown = []\<rparr>
          ''hi'')
      = [\<lparr>role = ''system'', content = ''S''\<rparr>, \<lparr>role = ''user'', content = ''hi''\<rparr>]
   \<and> posted
        (onUserMessage
          \<lparr>apiUrl = ''http://localhost:11434'', token = ''ollama'', model = ''llama3.2'',
            temperature = 7 / 10, maxTokens = 2048, systemPrompt = ''S'',
            maxHistoryMessages = 50, requestTimeout = 120000, maxFileSize = 1048576,
            allowWriteWithoutPrompt = False\<rparr>
          (\<lambda>options. Inl (Error ''fetch failed''))
          (\<lambda>command panel. panel)
          \<lparr>messages = [\<lparr>role = ''system'', content = ''S''\<rparr>], posted = [], errorMessagesShown = []\<rparr>
          ''hi'')
      = [ChatError ''fetch failed'']"
proof -
  have t: "js_trim ''hi'' = ''hi''" by (simp add: js_trim_def isWhiteSpace_def)
  have a: "js_trim ''hi'' \<noteq> []" by (simp add: t)
  have b: "\<not> startsWith ''/'' (js_trim ''hi'')" by (simp add: t startsWith_def)
  show ?thesis
    using a b C4_failed_call_keeps_trimmed_history
      [of "''hi''" "\<lambda>options. Inl (Error ''fetch failed'')"
          "\<lparr>apiUrl = ''http://localhost:11434'', token = ''ollama'', model = ''llama3.2'',
            temperature = 7 / 10, maxTokens = 2048, systemPrompt = ''S'',
            maxHistoryMessages = 50, requestTimeout = 120000, maxFileSize = 1048576,
            allowWriteWithoutPrompt = False\<rparr>"
          "\<lparr>messages = [\<lparr>role = ''system'', content = ''S''\<rparr>], posted = [], errorMessagesShown = []\<rparr>"
          "Error ''fetch failed''" "\<lambda>command panel. panel", OF a b]
    by (simp add: t Error_def trimMessageHistory_def)
qed

section \<open>Claims about the endpoint adapter\<close>

lemma rethrow_timeout_other:
  "name e \<noteq> ''AbortError'' \<Longrightarrow> rethrow_timeout numberText t (Inl e) = Inl e"
  by (simp add: rethrow_timeout_def)

lemma rethrow_timeout_Error:
  "rethrow_timeout numberText t (Inl (Error msg)) = Inl (Error msg)"
  by (simp add: rethrow_timeout_def Error_def)

lemma rethrow_timeout_TypeError:
  "rethrow_timeout numberText t (Inl (TypeError msg)) = Inl (TypeError msg)"
  by (simp add: rethrow_timeout_def TypeError_def)

lemma rethrow_timeout_Inr:
  "rethrow_timeout numberText t (Inr r) = Inr r"
  by (simp add: rethrow_timeout_def)

lemma rethrow_timeout_call_trim:
  "rethrow_timeout numberText t (call_trim expr v) = call_trim expr v"
  by (cases "(expr, v)" rule: call_trim.cases)
     (simp_all add: rethrow_timeout_Inr rethrow_timeout_TypeError)

lemma TypeError_not_empty_response: "\<not> isEmptyResponseError (TypeError msg)"
  by (simp add: isEmptyResponseError_def TypeError_def Error_def)

lemma call_trim_string:
  "v = Val (JString s) \<Longrightarrow> call_trim expr v = Inr (js_trim s)"
  by simp

lemma call_trim_other:
  "\<forall>s. v \<noteq> Val (JString s) \<Longrightarrow> call_trim expr v = Inl (TypeError (expr @ ''.trim is not a function''))"
  by (cases "(expr, v)" rule: call_trim.cases) simp_all

lemma read_plain_present:
  "body \<noteq> JNull \<Longrightarrow> read_plain (Val body) k = Inr (read_optional (Val body) k)"
  by (cases body) (simp_all add: read_plain_def read_optional_def)

lemma read_optional_truthy:
  "truthy v \<Longrightarrow> read_optional v k = get_property v k"
  by (cases v rule: nullish.cases) (simp_all add: read_optional_def)

lemma read_openai_reply_present:
  assumes "body \<noteq> JNull"
  shows "read_openai_reply body =
     (if \<not> truthy (openai_content body)
      then (if \<not> truthy (read_optional (Val body) ''choices'')
               \<or> get_property (read_optional (Val body) ''choices'') ''length'' = Val (JNumber 0)
            then Inl (Error ''No response choices returned from LLM'')
            else Inl (Error ''Empty response from LLM''))
      else call_trim ''content'' (openai_content body))"
  by (simp add: read_openai_reply_def openai_content_def read_plain_present [OF assms] Let_def)

lemma read_ollama_reply_present:
  assumes "body \<noteq> JNull"
  shows "read_ollama_reply body =
     (if \<not> truthy (ollama_content body) then Inl (Error ''Empty response from Ollama'')
      else call_trim ''json.message.content'' (ollama_content body))"
proof (cases "truthy (read_optional (Val body) ''message'')")
  case True
  then show ?thesis
    by (simp add: read_ollama_reply_def ollama_content_def read_plain_present [OF assms]
          read_optional_truthy)
next
  case False
  then have "\<not> truthy (read_optional (read_optional (Val body) ''message'') ''content'')"
    by (cases "read_optional (Val body) ''message''" rule: truthy.cases)
       (simp_all add: read_optional_def parse_index_def isDigit_def)
  with False show ?thesis
    by (simp add: read_ollama_reply_def ollama_content_def read_plain_present [OF assms])
qed

lemma callOpenAIEndpoint_parsed:
  assumes "resp_ok response" and "resp_json response = Inr body"
  shows "callOpenAIEndpoint (\<lambda>request. Fulfilled response) numberText url mdl msgs hdrs temp maxTok tmo
           = rethrow_timeout numberText tmo (read_openai_reply body)"
  using assms by (simp add: callOpenAIEndpoint_def)

lemma callOllamaEndpoint_parsed:
  assumes "resp_ok response" and "resp_json response = Inr body"
  shows "callOllamaEndpoint (\<lambda>request. Fulfilled response) numberText url mdl msgs hdrs temp maxTok tmo
           = rethrow_timeout numberText tmo (read_ollama_reply body)"
  using assms by (simp add: callOllamaEndpoint_def)

lemma openai_present:
  assumes "resp_ok response" and "resp_json response = Inr body" and "body \<noteq> JNull"
  shows "callOpenAIEndpoint (\<lambda>request. Fulfilled response) numberText url mdl msgs hdrs temp maxTok tmo =
     (if \<not> truthy (openai_content body)
      then (if \<not> truthy (read_optional (Val body) ''choices'')
               \<or> get_property (read_optional (Val body) ''choices'') ''length'' = Val (JNumber 0)
            then Inl (Error ''No response choices returned from LLM'')
            else Inl (Error ''Empty response from LLM''))
      else call_trim ''content'' (openai_content body))"
  by (simp add: callOpenAIEndpoint_parsed [OF assms(1,2)] read_openai_reply_present [OF assms(3)]
        rethrow_timeout_Error rethrow_timeout_call_trim)

lemma ollama_present:
  assumes "resp_ok response" and "resp_json response = Inr body" and "body \<noteq> JNull"
  shows "callOllamaEndpoint (\<lambda>request. Fulfilled response) numberText url mdl msgs hdrs temp maxTok tmo =
     (if \<not> truthy (ollama_content body) then Inl (Error ''Empty response from Ollama'')
      else call_trim ''json.message.content'' (ollama_content body))"
  by (simp add: callOllamaEndpoint_parsed [OF assms(1,2)] read_ollama_reply_present [OF assms(3)]
        rethrow_timeout_Error rethrow_timeout_call_trim)

lemma call_trim_not_empty_response:
  "call_trim expr v = Inl e \<Longrightarrow> \<not> isEmptyResponseError e"
  by (cases "(expr, v)" rule: call_trim.cases) (auto simp: TypeError_not_empty_response)

lemma parse_index_zero: "parse_index ''0'' = Some 0"
  by (simp add: parse_index_def isDigit_def digit_value_def)

lemma openai_content_one_choice:
  assumes "own_property kvs ''choices'' = Some (JArray [JObject ch])"
    and "own_property ch ''message'' = Some (JObject m)"
    and "own_property m ''content'' = Some (JString c)"
  shows "openai_content (JObject kvs) = Val (JString c)"
  using assms
  by (simp add: openai_content_def read_optional_def parse_index_zero Let_def)

lemma openai_content_no_choices:
  assumes "own_property kvs ''choices'' = None \<or> own_property kvs ''choices'' = Some (JArray [])"
  shows "\<not> truthy (openai_content (JObject kvs))"
    and "\<not> truthy (read_optional (Val (JObject kvs)) ''choices'')
         \<or> get_property (read_optional (Val (JObject kvs)) ''choices'') ''length'' = Val (JNumber 0)"
  using assms
  by (auto simp add: openai_content_def read_optional_def Let_def)

lemma ollama_content_missing:
  assumes "own_property kvs ''message'' = None
           \<or> (\<exists>m. own_property kvs ''message'' = Some (JObject m) \<and> own_property m ''content'' = None)"
  shows "\<not> truthy (ollama_content (JObject kvs))"
  using assms
  by (auto simp add: ollama_content_def read_optional_def)

text \<open>
  C5 (as amended). For a success-status response whose body parses to a JSON value other
  than \<^verbatim>\<open>null\<close>, the endpoint adapter raises an \<^verbatim>\<open>EmptyResponseError\<close> exactly when the
  content the body offers (the first choice's message content on the OpenAI-compatible
  shape, the top-level message content on the Ollama shape) is missing or falsy, and it
  returns that content trimmed when it is a non-empty string. In particular, on the
  OpenAI-compatible shape a response with one choice whose message content is a non-empty
  string returns that content trimmed and a missing or empty \<^verbatim>\<open>choices\<close> list raises
  the error, and on the Ollama shape a missing message or message content raises the
  error. A success-status response without usable content raises another error in three
  cases: when the body does not parse, the parser's error is rethrown as it is (unless it
  is named \<^verbatim>\<open>AbortError\<close>); when the body is \<^verbatim>\<open>null\<close>, and when the content is truthy
  but no string, a \<^verbatim>\<open>TypeError\<close> is raised.
\<close>

theorem C5_empty_response_error:
  assumes "resp_ok response"
  shows "(\<forall>e. resp_json response = Inl e \<and> name e \<noteq> ''AbortError'' \<longrightarrow>
            callOpenAIEndpoint (\<lambda>request. Fulfilled response) numberText url mdl msgs hdrs temp maxTok tmo = Inl e
          \<and> callOllamaEndpoint (\<lambda>request. Fulfilled response) numberText url mdl msgs hdrs temp maxTok tmo = Inl e)
       \<and> (resp_json response = Inr JNull \<longrightarrow>
            (\<exists>msg. callOpenAIEndpoint (\<lambda>request. Fulfilled response) numberText url mdl msgs hdrs temp maxTok tmo
                      = Inl (TypeError msg))
          \<and> (\<exists>msg. callOllamaEndpoint (\<lambda>request. Fulfilled response) numberText url mdl msgs hdrs temp maxTok tmo
                      = Inl (TypeError msg)))
       \<and> (\<forall>body. resp_json response = Inr body \<and> body \<noteq> JNull \<longrightarrow>
            ((\<exists>e. callOpenAIEndpoint (\<lambda>request. Fulfilled response) numberText url mdl msgs hdrs temp maxTok tmo = Inl e
                  \<and> isEmptyResponseError e)
               \<longleftrightarrow> \<not> truthy (openai_content body))
          \<and> ((\<exists>e. callOllamaEndpoint (\<lambda>request. Fulfilled response) numberText url mdl msgs hdrs temp maxTok tmo = Inl e
                  \<and> isEmptyResponseError e)
               \<longleftrightarrow> \<not> truthy (ollama_content body))
          \<and> (\<forall>s. openai_content body = Val (JString s) \<and> s \<noteq> [] \<longrightarrow>
                callOpenAIEndpoint (\<lambda>request. Fulfilled response) numberText url mdl msgs hdrs temp maxTok tmo
                  = Inr (js_trim s))
          \<and> (\<forall>s. ollama_content body = Val (JString s) \<and> s \<noteq> [] \<longrightarrow>
                callOllamaEndpoint (\<lambda>request. Fulfilled response) numberText url mdl msgs hdrs temp maxTok tmo
                  = Inr (js_trim s))
          \<and> (truthy (openai_content body) \<and> (\<forall>s. openai_content body \<noteq> Val (JString s)) \<longrightarrow>
                (\<exists>msg. callOpenAIEndpoint (\<lambda>request. Fulfilled response) numberText url mdl msgs hdrs temp maxTok tmo
                          = Inl (TypeError msg)))
          \<and> (truthy (ollama_content body) \<and> (\<forall>s. ollama_content body \<noteq> Val (JString s)) \<longrightarrow>
                (\<exists>msg. callOllamaEndpoint (\<lambda>request. Fulfilled response) numberText url mdl msgs hdrs temp maxTok tmo
                          = Inl (TypeError msg))))
       \<and> (\<forall>kvs ch m c. resp_json response = Inr (JObject kvs)
              \<and> own_property kvs ''choices'' = Some (JArray [JObject ch])
              \<and> own_property ch ''message'' = Some (JObject m)
              \<and> own_property m ''content'' = Some (JString c) \<and> c \<noteq> [] \<longrightarrow>
            callOpenAIEndpoint (\<lambda>request. Fulfilled response) numberText url mdl msgs hdrs temp maxTok tmo
              = Inr (js_trim c))
       \<and> (\<forall>kvs. resp_json response = Inr (JObject kvs)
              \<and> (own_property kvs ''choices'' = None \<or> own_property kvs ''choices'' = Some (JArray [])) \<longrightarrow>
            callOpenAIEndpoint (\<lambda>request. Fulfilled response) numberText url mdl msgs hdrs temp maxTok tmo
              = Inl (Error ''No response choices returned from LLM''))
       \<and> (\<forall>kvs. resp_json response = Inr (JObject kvs)
              \<and> (own_property kvs ''message'' = None
                  \<or> (\<exists>m. own_property kvs ''message'' = Some (JObject m) \<and> own_property m ''content'' = None)) \<longrightarrow>
            callOllamaEndpoint (\<lambda>request. Fulfilled response) numberText url mdl msgs hdrs temp maxTok tmo
              = Inl (Error ''Empty response from Ollama''))"
proof -
  let ?openai = "callOpenAIEndpoint (\<lambda>request. Fulfilled response) numberText url mdl msgs hdrs temp maxTok tmo"
  let ?ollama = "callOllamaEndpoint (\<lambda>request. Fulfilled response) numberText url mdl msgs hdrs temp maxTok tmo"
  have unparsed: "?openai = Inl e \<and> ?ollama = Inl e"
    if "resp_json response = Inl e" and "name e \<noteq> ''AbortError''" for e
    using assms that
    by (simp add: callOpenAIEndpoint_def callOllamaEndpoint_def rethrow_timeout_other)
  have null_body: "(\<exists>msg. ?openai = Inl (TypeError msg)) \<and> (\<exists>msg. ?ollama = Inl (TypeError msg))"
    if "resp_json response = Inr JNull"
    using assms that
    by (auto simp add: callOpenAIEndpoint_def callOllamaEndpoint_def read_openai_reply_def
          read_ollama_reply_def read_plain_def rethrow_timeout_TypeError)
  have present: "((\<exists>e. ?openai = Inl e \<and> isEmptyResponseError e) \<longleftrightarrow> \<not> truthy (openai_content body))
          \<and> ((\<exists>e. ?ollama = Inl e \<and> isEmptyResponseError e) \<longleftrightarrow> \<not> truthy (ollama_content body))
          \<and> (\<forall>s. openai_content body = Val (JString s) \<and> s \<noteq> [] \<longrightarrow> ?openai = Inr (js_trim s))
          \<and> (\<forall>s. ollama_content body = Val (JString s) \<and> s \<noteq> [] \<longrightarrow> ?ollama = Inr (js_trim s))
          \<and> (truthy (openai_content body) \<and> (\<forall>s. openai_content body \<noteq> Val (JString s)) \<longrightarrow>
                (\<exists>msg. ?openai = Inl (TypeError msg)))
          \<and> (truthy (ollama_content body) \<and> (\<forall>s. ollama_content body \<noteq> Val (JString s)) \<longrightarrow>
                (\<exists>msg. ?ollama = Inl (TypeError msg)))"
    if parsed: "resp_json response = Inr body" and nn: "body \<noteq> JNull" for body
  proof -
    note o = openai_present [OF assms parsed nn, of numberText url mdl msgs hdrs temp maxTok tmo]
    note l = ollama_present [OF assms parsed nn, of numberText url mdl msgs hdrs temp maxTok tmo]
    have 1: "(\<exists>e. ?openai = Inl e \<and> isEmptyResponseError e) \<longleftrightarrow> \<not> truthy (openai_content body)"
      by (auto simp add: o isEmptyResponseError_def dest: call_trim_not_empty_response)
    have 2: "(\<exists>e. ?ollama = Inl e \<and> isEmptyResponseError e) \<longleftrightarrow> \<not> truthy (ollama_content body)"
      by (auto simp add: l isEmptyResponseError_def dest: call_trim_not_empty_response)
    have 3: "\<forall>s. openai_content body = Val (JString s) \<and> s \<noteq> [] \<longrightarrow> ?openai = Inr (js_trim s)"
      by (simp add: o)
    have 4: "\<forall>s. ollama_content body = Val (JString s) \<and> s \<noteq> [] \<longrightarrow> ?ollama = Inr (js_trim s)"
      by (simp add: l)
    have 5: "truthy (openai_content body) \<and> (\<forall>s. openai_content body \<noteq> Val (JString s)) \<longrightarrow>
                (\<exists>msg. ?openai = Inl (TypeError msg))"
      by (auto simp add: o call_trim_other)
    have 6: "truthy (ollama_content body) \<and> (\<forall>s. ollama_content body \<noteq> Val (JString s)) \<longrightarrow>
                (\<exists>msg. ?ollama = Inl (TypeError msg))"
      by (auto simp add: l call_trim_other)
    from 1 2 3 4 5 6 show ?thesis by (intro conjI)
  qed
  have one_choice: "?openai = Inr (js_trim c)"
    if "resp_json response = Inr (JObject kvs)"
      and "own_property kvs ''choices'' = Some (JArray [JObject ch])"
      and "own_property ch ''message'' = Some (JObject m)"
      and "own_property m ''content'' = Some (JString c)" and "c \<noteq> []" for kvs ch m c
  proof -
    have "openai_content (JObject kvs) = Val (JString c)"
      using that(2-4) by (rule openai_content_one_choice)
    with that(5) show ?thesis
      by (simp add: openai_present [OF assms that(1)])
  qed
  have no_choices: "?openai = Inl (Error ''No response choices returned from LLM'')"
    if "resp_json response = Inr (JObject kvs)"
      and "own_property kvs ''choices'' = None \<or> own_property kvs ''choices'' = Some (JArray [])" for kvs
    using openai_content_no_choices [OF that(2)]
    by (simp add: openai_present [OF assms that(1)])
  have no_message: "?ollama = Inl (Error ''Empty response from Ollama'')"
    if "resp_json response = Inr (JObject kvs)"
      and "own_property kvs ''message'' = None
           \<or> (\<exists>m. own_property kvs ''message'' = Some (JObject m) \<and> own_property m ''content'' = None)" for kvs
    using ollama_content_missing [OF that(2)]
    by (simp add: ollama_present [OF assms that(1)])
  have a: "\<forall>e. resp_json response = Inl e \<and> name e \<noteq> ''AbortError'' \<longrightarrow> ?openai = Inl e \<and> ?ollama = Inl e"
    using unparsed by blast
  have b: "resp_json response = Inr JNull \<longrightarrow>
      (\<exists>msg. ?openai = Inl (TypeError msg)) \<and> (\<exists>msg. ?ollama = Inl (TypeError msg))"
    using null_body by blast
  have c: "\<forall>body. resp_json response = Inr body \<and> body \<noteq> JNull \<longrightarrow>
            ((\<exists>e. ?openai = Inl e \<and> isEmptyResponseError e) \<longleftrightarrow> \<not> truthy (openai_content body))
          \<and> ((\<exists>e. ?ollama = Inl e \<and> isEmptyResponseError e) \<longleftrightarrow> \<not> truthy (ollama_content body))
          \<and> (\<forall>s. openai_content body = Val (JString s) \<and> s \<noteq> [] \<longrightarrow> ?openai = Inr (js_trim s))
          \<and> (\<forall>s. ollama_content body = Val (JString s) \<and> s \<noteq> [] \<longrightarrow> ?ollama = Inr (js_trim s))
          \<and> (truthy (openai_content body) \<and> (\<forall>s. openai_content body \<noteq> Val (JString s)) \<longrightarrow>
                (\<exists>msg. ?openai = Inl (TypeError msg)))
          \<and> (truthy (ollama_content body) \<and> (\<forall>s. ollama_content body \<noteq> Val (JString s)) \<longrightarrow>
                (\<exists>msg. ?ollama = Inl (TypeError msg)))"
  proof (intro allI impI)
    fix body assume "resp_json response = Inr body \<and> body \<noteq> JNull"
    then have "resp_json response = Inr body" and "body \<noteq> JNull" by simp_all
    then show "((\<exists>e. ?openai = Inl e \<and> isEmptyResponseError e) \<longleftrightarrow> \<not> truthy (openai_content body))
          \<and> ((\<exists>e. ?ollama = Inl e \<and> isEmptyResponseError e) \<longleftrightarrow> \<not> truthy (ollama_content body))
          \<and> (\<forall>s. openai_content body = Val (JString s) \<and> s \<noteq> [] \<longrightarrow> ?openai = Inr (js_trim s))
          \<and> (\<forall>s. ollama_content body = Val (JString s) \<and> s \<noteq> [] \<longrightarrow> ?ollama = Inr (js_trim s))
          \<and> (truthy (openai_content body) \<and> (\<forall>s. openai_content body \<noteq> Val (JString s)) \<longrightarrow>
                (\<exists>msg. ?openai = Inl (TypeError msg)))
          \<and> (truthy (ollama_content body) \<and> (\<forall>s. ollama_content body \<noteq> Val (JString s)) \<longrightarrow>
                (\<exists>msg. ?ollama = Inl (TypeError msg)))"
      by (rule present)
  qed
  have d: "\<forall>kvs ch m c. resp_json response = Inr (JObject kvs)
              \<and> own_property kvs ''choices'' = Some (JArray [JObject ch])
              \<and> own_property ch ''message'' = Some (JObject m)
              \<and> own_property m ''content'' = Some (JString c) \<and> c \<noteq> [] \<longrightarrow>
            ?openai = Inr (js_trim c)"
    using one_choice by blast
  have e: "\<forall>kvs. resp_json response = Inr (JObject kvs)
              \<and> (own_property kvs ''choices'' = None \<or> own_property kvs ''choices'' = Some (JArray [])) \<longrightarrow>
            ?openai = Inl (Error ''No response choices returned from LLM'')"
    using no_choices by blast
  have f: "\<forall>kvs. resp_json response = Inr (JObject kvs)
              \<and> (own_property kvs ''message'' = None
                  \<or> (\<exists>m. own_property kvs ''message'' = Some (JObject m) \<and> own_property m ''content'' = None)) \<longrightarrow>
            ?ollama = Inl (Error ''Empty response from Ollama'')"
    using no_message by blast
  from a b c d e f show ?thesis by (intro conjI)
qed

theorem C5_empty_response_error_witness:
  "resp_ok \<lparr>resp_ok = True, resp_status = 200, resp_statusText = ''OK'', resp_text = Inr [],
        resp_json = Inr (JObject [(''choices'', JArray [JObject
          [(''index'', JNumber 0),
           (''message'', JObject [(''role'', JString ''assistant''), (''content'', JString ''  hello '')])]])])\<rparr>
   \<and> callOpenAIEndpoint
        (\<lambda>request. Fulfilled \<lparr>resp_ok = True, resp_status = 200, resp_statusText = ''OK'', resp_text = Inr [],
            resp_json = Inr (JObject [(''choices'', JArray [JObject
              [(''index'', JNumber 0),
               (''message'', JObject [(''role'', JString ''assistant''), (''content'', JString ''  hello '')])]])])\<rparr>)
        (\<lambda>ms. []) ''http://localhost:11434'' ''llama3.2'' [] [] (7 / 10) 2048 120000
      = Inr ''hello''
   \<and> callOllamaEndpoint
        (\<lambda>request. Fulfilled \<lparr>resp_ok = True, resp_status = 200, resp_statusText = ''OK'', resp_text = Inr [],
            resp_json = Inr (JObject [(''choices'', JArray [JObject
              [(''index'', JNumber 0),
               (''message'', JObject [(''role'', JString ''assistant''), (''content'', JString ''  hello '')])]])])\<rparr>)
        (\<lambda>ms. []) ''http://localhost:11434'' ''llama3.2'' [] [] (7 / 10) 2048 120000
      = Inl (Error ''Empty response from Ollama'')"
  using C5_empty_response_error
    [of "\<lparr>resp_ok = True, resp_status = 200, resp_statusText = ''OK'', resp_text = Inr [],
          resp_json = Inr (JObject [(''choices'', JArray [JObject
            [(''index'', JNumber 0),
             (''message'', JObject [(''role'', JString ''assistant''), (''content'', JString ''  hello '')])]])])\<rparr>"
        "\<lambda>ms. []" "''http://localhost:11434''" "''llama3.2''" "[]" "[]" "7 / 10" 2048 120000]
  by (simp add: js_trim_def isWhiteSpace_def own_property_def)

text \<open>
  The counterexample to C5 as stated: a success-status response with an empty body, whose
  \<^verbatim>\<open>json()\<close> rejects with a \<^verbatim>\<open>SyntaxError\<close>, carries no usable content, and the error
  raised is that \<^verbatim>\<open>SyntaxError\<close>, none of the three of an \<^verbatim>\<open>EmptyResponseError\<close>.
\<close>

theorem C5_unparsed_body_counterexample:
  "callOpenAIEndpoint
     (\<lambda>request. Fulfilled \<lparr>resp_ok = True, resp_status = 200, resp_statusText = ''OK'', resp_text = Inr [],
         resp_json = Inl \<lparr>name = ''SyntaxError'', message = ''Unexpected end of JSON input''\<rparr>\<rparr>)
     (\<lambda>ms. []) ''http://localhost:11434'' ''llama3.2'' [] [] (7 / 10) 2048 120000
   = Inl \<lparr>name = ''SyntaxError'', message = ''Unexpected end of JSON input''\<rparr>
   \<and> \<not> isEmptyResponseError \<lparr>name = ''SyntaxError'', message = ''Unexpected end of JSON input''\<rparr>"
  by (simp add: callOpenAIEndpoint_def rethrow_timeout_def isEmptyResponseError_def Error_def)

lemma show_div_1000_whole:
  "tmo < 10 ^ 15 \<Longrightarrow> show_div_1000 numberText tmo = show_nat (tmo div 1000) \<longleftrightarrow> tmo mod 1000 = 0"
  by (simp add: show_div_1000_def)

text \<open>
  C9 (as amended). For every timeout below ten to the power fifteen milliseconds, when
  \<^verbatim>\<open>fetch\<close> is aborted by the timer both endpoint functions fail with an error whose
  message is \<^verbatim>\<open>Request timed out after\<close>, the timeout in seconds printed as the decimal
  \<^verbatim>\<open>timeout / 1000\<close>, and \<^verbatim>\<open>seconds\<close>; the number printed is the whole number of seconds
  exactly when the timeout is a multiple of 1000 milliseconds.
\<close>

theorem C9_timeout_message:
  assumes "name e = ''AbortError''" and "tmo < 10 ^ 15"
  shows "callOpenAIEndpoint (\<lambda>request. Rejected e) numberText url mdl msgs hdrs temp maxTok tmo
           = Inl (Error (''Request timed out after ''
                  @ show_nat (tmo div 1000)
                  @ (if tmo mod 1000 = 0 then [] else ''.'' @ show_milli_fraction (tmo mod 1000))
                  @ '' seconds''))
       \<and> callOllamaEndpoint (\<lambda>request. Rejected e) numberText url mdl msgs hdrs temp maxTok tmo
           = Inl (Error (''Request timed out after ''
                  @ show_nat (tmo div 1000)
                  @ (if tmo mod 1000 = 0 then [] else ''.'' @ show_milli_fraction (tmo mod 1000))
                  @ '' seconds''))
       \<and> (show_div_1000 numberText tmo = show_nat (tmo div 1000) \<longleftrightarrow> tmo mod 1000 = 0)"
proof -
  have a: "callOpenAIEndpoint (\<lambda>request. Rejected e) numberText url mdl msgs hdrs temp maxTok tmo
           = Inl (Error (''Request timed out after ''
                  @ show_nat (tmo div 1000)
                  @ (if tmo mod 1000 = 0 then [] else ''.'' @ show_milli_fraction (tmo mod 1000))
                  @ '' seconds''))"
    using assms by (simp add: callOpenAIEndpoint_def rethrow_timeout_def show_div_1000_def)
  have b: "callOllamaEndpoint (\<lambda>request. Rejected e) numberText url mdl msgs hdrs temp maxTok tmo
           = Inl (Error (''Request timed out after ''
                  @ show_nat (tmo div 1000)
                  @ (if tmo mod 1000 = 0 then [] else ''.'' @ show_milli_fraction (tmo mod 1000))
                  @ '' seconds''))"
    using assms by (simp add: callOllamaEndpoint_def rethrow_timeout_def show_div_1000_def)
  from a b show_div_1000_whole [OF assms(2), of numberText] show ?thesis by (intro conjI)
qed

theorem C9_timeout_message_witness:
  "name \<lparr>name = ''AbortError'', message = ''This operation was aborted''\<rparr> = ''AbortError''
   \<and> (120000::nat) < 10 ^ 15
   \<and> callOpenAIEndpoint
        (\<lambda>request. Rejected \<lparr>name = ''AbortError'', message = ''This operation was aborted''\<rparr>)
        (\<lambda>ms. []) ''http://localhost:11434/v1/chat/completions'' ''llama3.2'' [] [] (7 / 10) 2048 120000
      = Inl (Error ''Request timed out after 120 seconds'')"
proof -
  have shown: "show_nat 120 = ''120''"
    by (simp add: show_nat_digit show_nat_step digit_char_def)
  have abort: "name \<lparr>name = ''AbortError'', message = ''This operation was aborted''\<rparr> = ''AbortError''"
    by simp
  have small: "(120000::nat) < 10 ^ 15" by simp
  show ?thesis
    using C9_timeout_message [OF abort small,
        of "\<lambda>ms. []" "''http://localhost:11434/v1/chat/completions''" "''llama3.2''" "[]" "[]" "7 / 10" 2048]
    by (simp add: shown)
qed

text \<open>
  The counterexample to C9 as stated: a timeout of 1500 milliseconds is reported as 1.5
  seconds.
\<close>

theorem C9_fractional_seconds_counterexample:
  "callOpenAIEndpoint
     (\<lambda>request. Rejected \<lparr>name = ''AbortError'', message = ''This operation was aborted''\<rparr>)
     (\<lambda>ms. []) ''http://localhost:11434/v1/chat/completions'' ''llama3.2'' [] [] (7 / 10) 2048 1500
   = Inl (Error ''Request timed out after 1.5 seconds'')"
proof -
  have shown: "show_div_1000 (\<lambda>ms. []) 1500 = ''1.5''"
    by (simp add: show_div_1000_def show_milli_fraction_def show_nat_digit show_nat_step digit_char_def)
  show ?thesis
    by (simp add: callOpenAIEndpoint_def rethrow_timeout_def shown)
qed

section \<open>Claims about suggestion extraction\<close>

lemma match_fence_needs_backtick:
  "CHR 0x60 \<noteq> c \<Longrightarrow> match_fence (c # cs) = None"
  by (simp add: match_fence_def fenceMarker_def)

lemma exec_loop_without_backtick:
  "CHR 0x60 \<notin> set s \<Longrightarrow> exec_loop s = []"
  by (induction s) (simp_all add: match_fence_needs_backtick)

lemma exec_loop_skips_plain_prefix:
  "CHR 0x60 \<notin> set pre \<Longrightarrow> exec_loop (pre @ s) = exec_loop s"
  by (induction pre) (simp_all add: match_fence_needs_backtick)

lemma exec_loop_at_match:
  "match_fence (c # cs) = Some (p, body, rest) \<Longrightarrow>
   exec_loop (c # cs)
     = (if p \<noteq> [] then [\<lparr>path = js_trim p, fileContent = body\<rparr>] else []) @ exec_loop rest"
  by simp

lemma match_example_fence:
  \<open>match_fence (''```file path="a/b.txt"\<newline>hello\<newline>world```'' @ post)
     = Some (''a/b.txt'', ''hello\<newline>world'', post)\<close>
  by (simp add: match_fence_def fenceMarker_def isWhiteSpace_def isLineBreak_def)

text \<open>
  C6. For a text that consists of any text without a backquote, one file fence with path
  \<^verbatim>\<open>a/b.txt\<close> and content \<^verbatim>\<open>hello\<close>, line feed, \<^verbatim>\<open>world\<close> (the closing marker directly
  after the content), and again any text without a backquote,
  \<^verbatim>\<open>extractAllFileFences\<close> returns exactly one suggestion, with that path and that content,
  verbatim.
\<close>

theorem C6_single_fence_round_trip:
  assumes "CHR 0x60 \<notin> set pre" and "CHR 0x60 \<notin> set post"
  shows \<open>extractAllFileFences
           (pre @ ''```file path="a/b.txt"\<newline>hello\<newline>world```'' @ post)
         = [\<lparr>path = ''a/b.txt'', fileContent = ''hello\<newline>world''\<rparr>]\<close>
proof -
  let ?fence = \<open>''```file path="a/b.txt"\<newline>hello\<newline>world```''\<close>
  have "exec_loop (pre @ ?fence @ post) = exec_loop (?fence @ post)"
    using assms(1) by (rule exec_loop_skips_plain_prefix)
  also have "\<dots> = [\<lparr>path = js_trim ''a/b.txt'', fileContent = ''hello\<newline>world''\<rparr>] @ exec_loop post"
  proof -
    have "match_fence (CHR 0x60 # (tl ?fence @ post)) = Some (''a/b.txt'', ''hello\<newline>world'', post)"
      using match_example_fence [of post] by simp
    then have "exec_loop (CHR 0x60 # (tl ?fence @ post))
        = (if ''a/b.txt'' \<noteq> [] then [\<lparr>path = js_trim ''a/b.txt'', fileContent = ''hello\<newline>world''\<rparr>] else []) @ exec_loop post"
      by (rule exec_loop_at_match)
    then show ?thesis by simp
  qed
  also have "\<dots> = [\<lparr>path = ''a/b.txt'', fileContent = ''hello\<newline>world''\<rparr>]"
    using assms(2) by (simp add: exec_loop_without_backtick js_trim_def isWhiteSpace_def)
  finally show ?thesis by (simp only: extractAllFileFences_def)
qed

theorem C6_single_fence_round_trip_witness:
  \<open>CHR 0x60 \<notin> set ''See: '' \<and> CHR 0x60 \<notin> set '' Done.''
    \<and> extractAllFileFences
          (''See: '' @ ''```file path="a/b.txt"\<newline>hello\<newline>world```'' @ '' Done.'')
        = [\<lparr>path = ''a/b.txt'', fileContent = ''hello\<newline>world''\<rparr>]\<close>
proof -
  have a: "CHR 0x60 \<notin> set ''See: ''" by simp
  have b: "CHR 0x60 \<notin> set '' Done.''" by simp
  show ?thesis
    using a b C6_single_fence_round_trip [OF a b] by (simp only: simp_thms)
qed

text \<open>
  C7. Claimed: a match whose path is empty after trimming is skipped, while an empty
  content block is accepted. Evaluated on a fence whose path attribute is a single space
  and whose content block is empty, the code yields a suggestion, and its path is the
  empty string: the guard tests the path before it is trimmed.
\<close>

theorem C7_whitespace_path_yields_empty_path:
  \<open>extractAllFileFences ''```file path=" "\<newline>```''
     = [\<lparr>path = [], fileContent = []\<rparr>]\<close>
  by (simp add: extractAllFileFences_def match_fence_def fenceMarker_def
        isWhiteSpace_def isLineBreak_def js_trim_def)

text \<open>An empty content block under an ordinary path is accepted, as claimed.\<close>

lemma empty_content_block_accepted:
  \<open>extractAllFileFences ''```file path="a.txt"\<newline>```''
     = [\<lparr>path = ''a.txt'', fileContent = []\<rparr>]\<close>
  by (simp add: extractAllFileFences_def match_fence_def fenceMarker_def
        isWhiteSpace_def isLineBreak_def js_trim_def)

section \<open>Claims about path validation\<close>

text \<open>
  C8. With the POSIX path module \<^verbatim>\<open>validateRelativePath\<close> throws for \<^verbatim>\<open>../x\<close> and for
  \<^verbatim>\<open>/etc/passwd\<close> and returns for \<^verbatim>\<open>src/app.ts\<close>; and with any path module whatever it
  throws for every path that contains a null byte.
\<close>

theorem C8_path_validation:
  "validateRelativePath posix ''../x'' = Inl (Error ''Path traversal (..) is not allowed'')
   \<and> validateRelativePath posix ''/etc/passwd'' = Inl (Error ''Absolute paths are not allowed'')
   \<and> (\<forall>pm p. CHR 0x00 \<in> set p \<longrightarrow> (\<exists>e. validateRelativePath pm p = Inl e))
   \<and> validateRelativePath posix ''src/app.ts'' = Inr ()"
proof -
  have 1: "validateRelativePath posix ''../x'' = Inl (Error ''Path traversal (..) is not allowed'')"
    by (simp add: validateRelativePath_def posix_def posix_normalize_def posix_isAbsolute_def
          js_trim_def isWhiteSpace_def startsWith_def Let_def)
  have 2: "validateRelativePath posix ''/etc/passwd'' = Inl (Error ''Absolute paths are not allowed'')"
    by (simp add: validateRelativePath_def posix_def posix_normalize_def posix_isAbsolute_def
          js_trim_def isWhiteSpace_def startsWith_def Let_def)
  have 3: "\<exists>e. validateRelativePath pm p = Inl e" if "CHR 0x00 \<in> set p" for pm p
    using that by (simp add: validateRelativePath_def Let_def)
  have 4: "validateRelativePath posix ''src/app.ts'' = Inr ()"
    by (simp add: validateRelativePath_def posix_def posix_normalize_def posix_isAbsolute_def
          js_trim_def isWhiteSpace_def startsWith_def Let_def)
  from 1 2 3 4 show ?thesis by blast
qed

theorem C8_path_validation_witness:
  "CHR 0x00 \<in> set (''a'' @ [CHR 0x00] @ ''b'')
   \<and> (\<exists>e. validateRelativePath posix (''a'' @ [CHR 0x00] @ ''b'') = Inl e)"
  using C8_path_validation by simp

text \<open>
  The three named paths with any path module: the first is rejected as soon as its
  normal form still contains the parent segment, the second as soon as its normal form is
  absolute, and the third is accepted when normalising only rewrites its separator and
  the result is not absolute. Node's Windows module meets these conditions as the POSIX
  one does.
\<close>

lemma validateRelativePath_any_module:
  "js_includes ''..'' (normalize pm ''../x'') \<Longrightarrow> \<exists>e. validateRelativePath pm ''../x'' = Inl e"
  "isAbsolute pm (normalize pm ''/etc/passwd'') \<Longrightarrow> \<exists>e. validateRelativePath pm ''/etc/passwd'' = Inl e"
  "normalize pm ''src/app.ts'' = ''src'' @ sep pm @ ''app.ts'' \<Longrightarrow> sep pm = ''/'' \<or> sep pm = [CHR 0x5C] \<Longrightarrow>
     \<not> isAbsolute pm (normalize pm ''src/app.ts'') \<Longrightarrow> validateRelativePath pm ''src/app.ts'' = Inr ()"
    apply (simp add: validateRelativePath_def Let_def js_trim_def isWhiteSpace_def)
   apply (simp add: validateRelativePath_def Let_def js_trim_def isWhiteSpace_def)
  apply (auto simp add: validateRelativePath_def Let_def js_trim_def isWhiteSpace_def startsWith_def)
  done

end
